theory Spec2Isabelle
  imports Main "HOL-Library.Word"
begin

unbundle bit_operations_syntax

section \<open>The console driver of kern/console.c\<close>

text \<open>
  The driver is C for 32-bit x86.  An \<^verbatim>\<open>int\<close> is a 32-bit two's complement word
  (comparisons are the signed ones, arithmetic wraps), a \<^verbatim>\<open>char\<close> is a byte, and a
  pointer is a 32-bit address into one flat memory.
\<close>

type_synonym c_int = "32 word"
type_synonym c_char = "8 word"
type_synonym addr = "32 word"

subsection \<open>Constants of the headers\<close>

text \<open>
  Modelled from the spec: the header behind \<^verbatim>\<open>p1kern.h\<close> that defines the console
  geometry and the CRTC port numbers is not part of the source tree.  The spec gives the
  grid as 80 columns by 25 rows, which agrees with the literals 79 and 24 of
  \<^verbatim>\<open>set_cursor\<close>; the base address and the port and index numbers are the ones of the
  VGA text console.  The development only uses that the two ports differ and that the
  two register indices differ.
\<close>

definition CONSOLE_WIDTH :: c_int where
  "CONSOLE_WIDTH = 80"

definition CONSOLE_HEIGHT :: c_int where
  "CONSOLE_HEIGHT = 25"

definition CONSOLE_MEM_BASE :: c_int where
  "CONSOLE_MEM_BASE = 0xB8000"

definition CRTC_IDX_REG :: "16 word" where
  "CRTC_IDX_REG = 0x3D4"

definition CRTC_DATA_REG :: "16 word" where
  "CRTC_DATA_REG = 0x3D5"

definition CRTC_CURSOR_LSB_IDX :: c_char where
  "CRTC_CURSOR_LSB_IDX = 15"

definition CRTC_CURSOR_MSB_IDX :: c_char where
  "CRTC_CURSOR_MSB_IDX = 14"

text \<open>\<^verbatim>\<open>#define CONSOLE_OUT_OF_RANGE 2500\<close>\<close>

definition CONSOLE_OUT_OF_RANGE :: c_int where
  "CONSOLE_OUT_OF_RANGE = 2500"

subsection \<open>State\<close>

text \<open>
  The four globals of the file, the flat byte memory that the driver writes through
  \<^verbatim>\<open>*(char * )(CONSOLE_MEM_BASE + ...)\<close> and reads through the \<^verbatim>\<open>s\<close> of
  \<^verbatim>\<open>putbytes\<close>, and the CRTC behind the two ports: its index latch and its register
  file.  The globals are fields of their own, apart from \<^verbatim>\<open>mem\<close>: the source does
  not say where the linker places them, so a store through a computed address that
  lands on one of the globals themselves is outside the model.  The display buffer and
  the bytes next to it are video memory, where no global lies; the stores evaluated in
  this development all land there.  No frame property of the globals is drawn from the
  record layout for stores elsewhere.
\<close>

record console =
  cursor_row :: c_int
  cursor_col :: c_int
  current_color :: c_char
  is_cursor_visible :: c_int
  mem :: "addr \<Rightarrow> c_char"
  crtc_idx :: c_char
  crtc_reg :: "c_char \<Rightarrow> c_char"

text \<open>
  Modelled from the spec: \<^verbatim>\<open>outb\<close> comes from \<^verbatim>\<open>asm.h\<close>, which is not part of the
  source tree.  It sends one byte to a port.  A byte sent to the index port selects a
  CRTC register, a byte sent to the data port is stored in the selected register, any
  other port is not part of the model.
\<close>

definition outb :: "16 word \<Rightarrow> c_char \<Rightarrow> console \<Rightarrow> console" where
  "outb port val s =
     (if port = CRTC_IDX_REG then s\<lparr>crtc_idx := val\<rparr>
      else if port = CRTC_DATA_REG then s\<lparr>crtc_reg := (crtc_reg s)(crtc_idx s := val)\<rparr>
      else s)"

text \<open>
  Modelled from the spec: the hardware cursor register is the 16-bit value whose
  most-significant byte is the CRTC register \<^verbatim>\<open>CRTC_CURSOR_MSB_IDX\<close> and whose
  least-significant byte is the register \<^verbatim>\<open>CRTC_CURSOR_LSB_IDX\<close>.
\<close>

definition hw_cursor :: "console \<Rightarrow> 16 word" where
  "hw_cursor s = word_cat (crtc_reg s CRTC_CURSOR_MSB_IDX) (crtc_reg s CRTC_CURSOR_LSB_IDX)"

text \<open>
  The address expression \<^verbatim>\<open>CONSOLE_MEM_BASE + 2 * (CONSOLE_WIDTH * row + col)\<close>, which
  the source writes out at each access.
\<close>

definition cell_addr :: "c_int \<Rightarrow> c_int \<Rightarrow> addr" where
  "cell_addr row col = CONSOLE_MEM_BASE + 2 * (CONSOLE_WIDTH * row + col)"

text \<open>
  The state at driver start: the globals with their initialisers (\<^verbatim>\<open>current_color\<close>
  has none and is zero), over a zeroed memory and CRTC.
\<close>

definition init_console :: console where
  "init_console =
     \<lparr>cursor_row = 0, cursor_col = 0, current_color = 0, is_cursor_visible = 0,
      mem = (\<lambda>_. 0), crtc_idx = 0, crtc_reg = (\<lambda>_. 0)\<rparr>"

subsection \<open>putbyte and putbytes\<close>

text \<open>
  \<^verbatim>\<open>int putbyte(char ch)\<close>.  The \<^verbatim>\<open>switch\<close> on \<^verbatim>\<open>'\n'\<close> (10), \<^verbatim>\<open>'\r'\<close> (13) and
  \<^verbatim>\<open>'\b'\<close> (8), each assignment in the order of the source.  The result is the
  \<^verbatim>\<open>char\<close> converted to \<^verbatim>\<open>int\<close>.
\<close>

definition putbyte :: "c_char \<Rightarrow> console \<Rightarrow> c_int \<times> console" where
  "putbyte ch s =
     (if ch = 10 then
        (let s1 = s\<lparr>cursor_col := 0\<rparr>;
             s2 = s1\<lparr>cursor_row := cursor_row s1 + 1\<rparr>
         in (scast ch, s2))
      else if ch = 13 then
        (scast ch, s\<lparr>cursor_col := 0\<rparr>)
      else if ch = 8 then
        (let s1 = s\<lparr>cursor_col := cursor_col s - 1\<rparr>;
             s2 = (if cursor_col s1 <s 0
                   then (s1\<lparr>cursor_col := CONSOLE_WIDTH - 1\<rparr>)
                          \<lparr>cursor_row := cursor_row s1 - 1\<rparr>
                   else s1);
             s3 = s2\<lparr>mem := (mem s2)(cell_addr (cursor_row s2) (cursor_col s2) := 0x20)\<rparr>;
             s4 = s3\<lparr>mem := (mem s3)(cell_addr (cursor_row s3) (cursor_col s3) + 1
                                          := current_color s3)\<rparr>
         in (scast ch, s4))
      else
        (let s1 = s\<lparr>mem := (mem s)(cell_addr (cursor_row s) (cursor_col s) := ch)\<rparr>;
             s2 = s1\<lparr>mem := (mem s1)(cell_addr (cursor_row s1) (cursor_col s1) + 1
                                          := current_color s1)\<rparr>;
             s3 = s2\<lparr>cursor_col := cursor_col s2 + 1\<rparr>;
             s4 = (if CONSOLE_WIDTH <s cursor_col s3
                   then (s3\<lparr>cursor_col := 0\<rparr>)\<lparr>cursor_row := cursor_row s3 + 1\<rparr>
                   else s3)
         in (scast ch, s4)))"

text \<open>
  \<^verbatim>\<open>void putbytes(const char* s, int len)\<close>.  The pointer is an address of the flat
  memory and \<^verbatim>\<open>NULL\<close> is address 0.  The loop \<^verbatim>\<open>while (len >= 0)\<close> reads the byte at
  \<^verbatim>\<open>s\<close> from the memory as it is at that moment, hands it to \<^verbatim>\<open>putbyte\<close>, and steps
  \<^verbatim>\<open>s\<close> and \<^verbatim>\<open>len\<close>.
\<close>

function putbytes_loop :: "addr \<Rightarrow> c_int \<Rightarrow> console \<Rightarrow> console" where
  "putbytes_loop s len st =
     (if 0 \<le>s len
      then putbytes_loop (s + 1) (len - 1) (snd (putbyte (mem st s) st))
      else st)"
  by pat_completeness auto

termination
proof (relation "measure (\<lambda>(s, len, st). nat (sint len + 1))")
  show "wf (measure (\<lambda>(s :: addr, len :: c_int, st :: console). nat (sint len + 1)))"
    by simp
next
  fix s :: addr and len :: c_int and st :: console
  assume "0 \<le>s len"
  then have lo: "0 \<le> sint len"
    by (simp add: word_sle_eq)
  have hi: "sint len < 2 ^ 31"
    using sint_lt [of len] by simp
  have "sint (len - 1) = signed_take_bit 31 (sint len - sint (1 :: c_int))"
    using sint_word_ariths(2) [of len 1] by simp
  also have "\<dots> = signed_take_bit 31 (sint len - 1)"
    by simp
  also have "\<dots> = sint len - 1"
    using lo hi by (intro signed_take_bit_int_eq_self) auto
  finally have "sint (len - 1) = sint len - 1" .
  with lo show "((s + 1, len - 1, snd (putbyte (mem st s) st)), (s, len, st))
      \<in> measure (\<lambda>(s, len, st). nat (sint len + 1))"
    by simp
qed

definition putbytes :: "addr \<Rightarrow> c_int \<Rightarrow> console \<Rightarrow> console" where
  "putbytes s len st = (if s = 0 then st else putbytes_loop s len st)"

subsection \<open>Colour\<close>

text \<open>
  \<^verbatim>\<open>int set_term_color(int color)\<close>: the two masks and the four comparisons as the
  source has them; the assignment to the \<^verbatim>\<open>char\<close> global keeps the low byte.
\<close>

definition set_term_color :: "c_int \<Rightarrow> console \<Rightarrow> c_int \<times> console" where
  "set_term_color color s =
     (let foreground = color AND 0x0F;
          background = color AND 0xF0
      in if foreground <s 0 \<or> 15 <s foreground \<or> background <s 0 \<or> 7 <s background
         then (- 1, s)
         else (0, s\<lparr>current_color := ucast color\<rparr>))"

text \<open>
  \<^verbatim>\<open>void get_term_color(int* color)\<close>: the value stored through the pointer is the
  result here.  Plain \<^verbatim>\<open>char\<close> is signed on this target, so the conversion to
  \<^verbatim>\<open>int\<close> extends the sign.
\<close>

definition get_term_color :: "console \<Rightarrow> c_int" where
  "get_term_color s = scast (current_color s)"

subsection \<open>Cursor\<close>

definition set_cursor :: "c_int \<Rightarrow> c_int \<Rightarrow> console \<Rightarrow> c_int \<times> console" where
  "set_cursor row col s =
     (if row <s 0 \<or> 24 <s row \<or> col <s 0 \<or> 79 <s col
      then (- 1, s)
      else (0, (s\<lparr>cursor_row := row\<rparr>)\<lparr>cursor_col := col\<rparr>))"

text \<open>\<^verbatim>\<open>void get_cursor(int* row, int* col)\<close>: the two stored values are the result.\<close>

definition get_cursor :: "console \<Rightarrow> c_int \<times> c_int" where
  "get_cursor s = (cursor_row s, cursor_col s)"

text \<open>
  \<^verbatim>\<open>hide_cursor\<close> and \<^verbatim>\<open>show_cursor\<close>: four \<^verbatim>\<open>outb\<close> calls, then the flag.
  \<^verbatim>\<open>outb\<close> takes a byte, so each \<^verbatim>\<open>int\<close> argument is cut to its low eight bits;
  \<^verbatim>\<open>>>\<close> on an \<^verbatim>\<open>int\<close> is the arithmetic shift.
\<close>

definition hide_cursor :: "console \<Rightarrow> console" where
  "hide_cursor s =
     (let cursor_pos = CONSOLE_OUT_OF_RANGE;
          s1 = outb CRTC_IDX_REG CRTC_CURSOR_MSB_IDX s;
          s2 = outb CRTC_DATA_REG (ucast (signed_drop_bit 8 cursor_pos)) s1;
          s3 = outb CRTC_IDX_REG CRTC_CURSOR_LSB_IDX s2;
          s4 = outb CRTC_DATA_REG (ucast cursor_pos) s3
      in s4\<lparr>is_cursor_visible := 0\<rparr>)"

definition show_cursor :: "console \<Rightarrow> console" where
  "show_cursor s =
     (let cursor_pos = cursor_row s * CONSOLE_WIDTH + cursor_col s;
          s1 = outb CRTC_IDX_REG CRTC_CURSOR_MSB_IDX s;
          s2 = outb CRTC_DATA_REG (ucast (signed_drop_bit 8 cursor_pos)) s1;
          s3 = outb CRTC_IDX_REG CRTC_CURSOR_LSB_IDX s2;
          s4 = outb CRTC_DATA_REG (ucast cursor_pos) s3
      in s4\<lparr>is_cursor_visible := 1\<rparr>)"

subsection \<open>Single cells\<close>

text \<open>
  \<^verbatim>\<open>void draw_char(int row, int col, int ch, int color)\<close> and
  \<^verbatim>\<open>char get_char(int row, int col)\<close>: the two stores, and the load, with no test of
  the coordinates before them.
\<close>

definition draw_char :: "c_int \<Rightarrow> c_int \<Rightarrow> c_int \<Rightarrow> c_int \<Rightarrow> console \<Rightarrow> console" where
  "draw_char row col ch color s =
     (let s1 = s\<lparr>mem := (mem s)(cell_addr row col := ucast ch)\<rparr>
      in s1\<lparr>mem := (mem s1)(cell_addr row col + 1 := ucast color)\<rparr>)"

definition get_char :: "c_int \<Rightarrow> c_int \<Rightarrow> console \<Rightarrow> c_char" where
  "get_char row col s = mem s (cell_addr row col)"

subsection \<open>Notions the properties are stated with\<close>

text \<open>A coordinate pair is inside the grid.\<close>

definition in_grid :: "c_int \<Rightarrow> c_int \<Rightarrow> bool" where
  "in_grid row col \<longleftrightarrow>
     0 \<le>s row \<and> row <s CONSOLE_HEIGHT \<and> 0 \<le>s col \<and> col <s CONSOLE_WIDTH"

text \<open>The linear position of the logical cursor, row times width plus column.\<close>

definition linear_pos :: "console \<Rightarrow> c_int" where
  "linear_pos s = cursor_row s * CONSOLE_WIDTH + cursor_col s"

text \<open>An address lies in the display buffer, the 2 * 80 * 25 bytes from the base.\<close>

definition in_display :: "addr \<Rightarrow> bool" where
  "in_display a \<longleftrightarrow> a - CONSOLE_MEM_BASE < 2 * CONSOLE_WIDTH * CONSOLE_HEIGHT"

text \<open>\<^verbatim>\<open>n\<close> successive calls of \<^verbatim>\<open>putbyte\<close> with the same byte.\<close>

fun putbyte_rep :: "nat \<Rightarrow> c_char \<Rightarrow> console \<Rightarrow> console" where
  "putbyte_rep 0 ch s = s"
| "putbyte_rep (Suc n) ch s = putbyte_rep n ch (snd (putbyte ch s))"

text \<open>
  \<^verbatim>\<open>n\<close> successive calls of \<^verbatim>\<open>putbyte\<close> on the bytes found at \<^verbatim>\<open>p\<close>, \<^verbatim>\<open>p + 1\<close>,
  and so on, each read when its turn comes.
\<close>

fun putbyte_seq :: "nat \<Rightarrow> addr \<Rightarrow> console \<Rightarrow> console" where
  "putbyte_seq 0 p st = st"
| "putbyte_seq (Suc n) p st = putbyte_seq n (p + 1) (snd (putbyte (mem st p) st))"


section \<open>Auxiliary facts\<close>

declare putbytes_loop.simps [simp del]

lemma in_grid_iff:
  "in_grid row col \<longleftrightarrow> \<not> (row <s 0 \<or> 24 <s row \<or> col <s 0 \<or> 79 <s col)"
  by (auto simp add: in_grid_def CONSOLE_HEIGHT_def CONSOLE_WIDTH_def word_sless_alt word_sle_eq)

lemma sint_dec: "0 \<le>s (len :: c_int) \<Longrightarrow> sint (len - 1) = sint len - 1"
proof -
  assume "0 \<le>s len"
  then have lo: "0 \<le> sint len"
    by (simp add: word_sle_eq)
  have hi: "sint len < 2 ^ 31"
    using sint_lt [of len] by simp
  have "sint (len - 1) = signed_take_bit 31 (sint len - sint (1 :: c_int))"
    using sint_word_ariths(2) [of len 1] by simp
  also have "\<dots> = signed_take_bit 31 (sint len - 1)"
    by simp
  also have "\<dots> = sint len - 1"
    using lo hi by (intro signed_take_bit_int_eq_self) auto
  finally show "sint (len - 1) = sint len - 1" .
qed

text \<open>
  The loop of \<^verbatim>\<open>putbytes\<close> makes \<^verbatim>\<open>len + 1\<close> calls of \<^verbatim>\<open>putbyte\<close> when
  \<^verbatim>\<open>len\<close> is not negative, and none otherwise.
\<close>

lemma putbytes_loop_count:
  "putbytes_loop s len st =
     (if 0 \<le>s len then putbyte_seq (Suc (nat (sint len))) s st else st)"
proof (induction s len st rule: putbytes_loop.induct)
  case (1 s len st)
  show ?case
  proof (cases "0 \<le>s len")
    case False
    then show ?thesis
      by (subst putbytes_loop.simps) (simp only: if_False)
  next
    case True
    define st' where "st' = snd (putbyte (mem st s) st)"
    have step: "putbytes_loop s len st = putbytes_loop (s + 1) (len - 1) st'"
      by (subst putbytes_loop.simps) (simp only: True if_True st'_def)
    have ih: "putbytes_loop (s + 1) (len - 1) st' =
        (if 0 \<le>s len - 1 then putbyte_seq (Suc (nat (sint (len - 1)))) (s + 1) st' else st')"
      unfolding st'_def by (rule "1.IH" [OF True])
    have lo: "0 \<le> sint len"
      using True by (simp only: word_sle_eq sint_0)
    have d: "sint (len - 1) = sint len - 1"
      by (rule sint_dec [OF True])
    have c: "0 \<le>s len - 1 \<longleftrightarrow> 1 \<le> sint len"
      by (simp only: word_sle_eq sint_0 d) arith
    have unf: "putbyte_seq (Suc (nat (sint len))) s st = putbyte_seq (nat (sint len)) (s + 1) st'"
      by (simp only: putbyte_seq.simps st'_def)
    show ?thesis
    proof (cases "1 \<le> sint len")
      case True
      then have "nat (sint len) = Suc (nat (sint len - 1))"
        by arith
      then have "putbyte_seq (nat (sint len)) (s + 1) st' =
          putbyte_seq (Suc (nat (sint (len - 1)))) (s + 1) st'"
        by (simp only: d)
      with True show ?thesis
        by (simp only: step ih c if_True \<open>0 \<le>s len\<close> unf)
    next
      case False
      with lo have z: "nat (sint len) = 0"
        by arith
      have "putbyte_seq (nat (sint len)) (s + 1) st' = st'"
        by (simp only: z putbyte_seq.simps)
      with False show ?thesis
        by (simp only: step ih c if_False if_True \<open>0 \<le>s len\<close> unf)
    qed
  qed
qed

lemma putbytes_count:
  "putbytes s len st =
     (if s = 0 \<or> len <s 0 then st else putbyte_seq (Suc (nat (sint len))) s st)"
proof -
  have "len <s 0 \<longleftrightarrow> \<not> 0 \<le>s len"
    by (simp only: word_sless_alt word_sle_eq) arith
  then show ?thesis
    by (simp only: putbytes_def putbytes_loop_count) simp
qed

lemma sint_of_nat_small: "n \<le> 81 \<Longrightarrow> sint (of_nat n :: c_int) = int n"
proof -
  assume "n \<le> 81"
  then have "signed_take_bit 31 (int n) = int n"
    by (intro signed_take_bit_int_eq_self) auto
  moreover have "sint (word_of_int (int n) :: c_int) = signed_take_bit 31 (int n)"
    by (simp only: sint_sbintrunc') simp
  ultimately show ?thesis by (simp only: of_int_of_nat_eq)
qed

lemma no_wrap: "n < 80 \<Longrightarrow> \<not> CONSOLE_WIDTH <s (of_nat n + 1 :: c_int)"
proof -
  assume n: "n < 80"
  have "sint (of_nat (Suc n) :: c_int) = int (Suc n)"
    using n by (intro sint_of_nat_small) simp
  moreover have "(of_nat n + 1 :: c_int) = of_nat (Suc n)"
    by simp
  ultimately have "sint (of_nat n + 1 :: c_int) = int (Suc n)"
    by (simp only:)
  then show "\<not> CONSOLE_WIDTH <s (of_nat n + 1 :: c_int)"
    using n by (simp only: word_sless_alt CONSOLE_WIDTH_def) simp
qed

text \<open>The default branch of \<^verbatim>\<open>putbyte\<close>, for a byte that is none of the three controls.\<close>

lemma putbyte_ordinary:
  assumes "ch \<noteq> 10" "ch \<noteq> 13" "ch \<noteq> 8"
  shows "snd (putbyte ch s) =
    (let s3 = s\<lparr>mem := (mem s)(cell_addr (cursor_row s) (cursor_col s) := ch,
                   cell_addr (cursor_row s) (cursor_col s) + 1 := current_color s),
                 cursor_col := cursor_col s + 1\<rparr>
     in if CONSOLE_WIDTH <s cursor_col s + 1
        then s3\<lparr>cursor_col := 0, cursor_row := cursor_row s + 1\<rparr> else s3)"
  using assms by (simp add: putbyte_def Let_def)

lemma putbyte_ordinary_col:
  assumes "ch \<noteq> 10" "ch \<noteq> 13" "ch \<noteq> 8" and c: "cursor_col s = of_nat n" and n: "n < 80"
  shows "cursor_col (snd (putbyte ch s)) = of_nat (Suc n) \<and>
         cursor_row (snd (putbyte ch s)) = cursor_row s"
proof -
  have "\<not> CONSOLE_WIDTH <s cursor_col s + 1"
    unfolding c by (rule no_wrap [OF n])
  then have "snd (putbyte ch s) =
      s\<lparr>mem := (mem s)(cell_addr (cursor_row s) (cursor_col s) := ch,
                   cell_addr (cursor_row s) (cursor_col s) + 1 := current_color s),
        cursor_col := cursor_col s + 1\<rparr>"
    by (simp only: putbyte_ordinary [OF assms(1-3)] Let_def if_False)
  then have "cursor_col (snd (putbyte ch s)) = cursor_col s + 1"
    and "cursor_row (snd (putbyte ch s)) = cursor_row s"
    by simp_all
  then show ?thesis
    by (simp add: c)
qed

text \<open>
  From column \<^verbatim>\<open>k\<close>, \<^verbatim>\<open>n\<close> ordinary bytes that end no further than column 80 leave
  the row as it is and the column at \<^verbatim>\<open>k + n\<close>: column 80 itself does not wrap.
\<close>

lemma putbyte_rep_row:
  assumes "ch \<noteq> 10" "ch \<noteq> 13" "ch \<noteq> 8"
  shows "cursor_col s = of_nat k \<Longrightarrow> k + n \<le> 80 \<Longrightarrow>
         cursor_col (putbyte_rep n ch s) = of_nat (k + n) \<and>
         cursor_row (putbyte_rep n ch s) = cursor_row s"
proof (induction n arbitrary: s k)
  case 0
  then show ?case by simp
next
  case (Suc n)
  from Suc.prems have "k < 80" by simp
  from putbyte_ordinary_col [OF assms Suc.prems(1) this]
  have c: "cursor_col (snd (putbyte ch s)) = of_nat (Suc k)"
    and r: "cursor_row (snd (putbyte ch s)) = cursor_row s"
    by simp_all
  from Suc.prems have "Suc k + n \<le> 80" by simp
  from Suc.IH [OF c this] have
    "cursor_col (putbyte_rep n ch (snd (putbyte ch s))) = of_nat (Suc k + n)"
    "cursor_row (putbyte_rep n ch (snd (putbyte ch s))) = cursor_row (snd (putbyte ch s))"
    by simp_all
  with r show ?case by simp
qed

text \<open>Backspace in column 0: the branch that steps the row down, whatever the row.\<close>

lemma putbyte_backspace_col0:
  "cursor_col s = 0 \<Longrightarrow>
   snd (putbyte 8 s) =
     s\<lparr>cursor_col := 79, cursor_row := cursor_row s - 1,
       mem := (mem s)(cell_addr (cursor_row s - 1) 79 := 0x20,
                      cell_addr (cursor_row s - 1) 79 + 1 := current_color s)\<rparr>"
  by (simp add: putbyte_def Let_def CONSOLE_WIDTH_def)

lemma port_neq: "CRTC_IDX_REG \<noteq> CRTC_DATA_REG"
  by (simp add: CRTC_IDX_REG_def CRTC_DATA_REG_def)

lemma idx_neq: "CRTC_CURSOR_MSB_IDX \<noteq> CRTC_CURSOR_LSB_IDX"
  by (simp add: CRTC_CURSOR_MSB_IDX_def CRTC_CURSOR_LSB_IDX_def)

text \<open>The two bytes that reach the data port are the low sixteen bits of the position.\<close>

lemma cat_bytes:
  "(word_cat (ucast (signed_drop_bit 8 w) :: c_char) (ucast w :: c_char) :: 16 word) = ucast w"
  for w :: c_int
  by (rule bit_word_eqI) (auto simp add: bit_simps)

lemma crtc_write_pos:
  "crtc_reg (outb CRTC_DATA_REG lo (outb CRTC_IDX_REG CRTC_CURSOR_LSB_IDX
     (outb CRTC_DATA_REG hi (outb CRTC_IDX_REG CRTC_CURSOR_MSB_IDX s)))) =
   (crtc_reg s)(CRTC_CURSOR_MSB_IDX := hi, CRTC_CURSOR_LSB_IDX := lo)"
  using port_neq by (simp add: outb_def)

lemma outb_frame:
  "cursor_row (outb p v s) = cursor_row s"
  "cursor_col (outb p v s) = cursor_col s"
  "current_color (outb p v s) = current_color s"
  "is_cursor_visible (outb p v s) = is_cursor_visible s"
  "mem (outb p v s) = mem s"
  by (simp_all add: outb_def)

lemma hw_cursor_show: "hw_cursor (show_cursor s) = ucast (linear_pos s)"
  using idx_neq
  by (simp add: show_cursor_def Let_def hw_cursor_def crtc_write_pos linear_pos_def cat_bytes)

lemma hw_cursor_hide: "hw_cursor (hide_cursor s) = ucast CONSOLE_OUT_OF_RANGE"
  using idx_neq
  by (simp add: hide_cursor_def Let_def hw_cursor_def crtc_write_pos cat_bytes)

lemma hide_cursor_pos:
  "cursor_row (hide_cursor s) = cursor_row s"
  "cursor_col (hide_cursor s) = cursor_col s"
  "linear_pos (hide_cursor s) = linear_pos s"
  by (simp_all add: hide_cursor_def Let_def outb_frame linear_pos_def)

text \<open>Offsets of cells of the grid, as unsigned numbers.\<close>

lemma small_word_less: "n < 4000 \<Longrightarrow> (of_nat n :: c_int) < 4000"
proof -
  assume n: "n < 4000"
  then have "unat (of_nat n :: c_int) = n"
    by (simp add: unat_of_nat)
  with n show ?thesis
    by (simp only: word_less_nat_alt) simp
qed

lemma cell_offset_bound:
  fixes row col :: c_int
  assumes r: "unat row < 25" and c: "unat col < 80"
  shows "2 * (80 * row + col) < 4000 \<and> 2 * (80 * row + col) + 1 < 4000"
proof -
  have row: "row = of_nat (unat row)" and col: "col = of_nat (unat col)"
    by simp_all
  have e0: "2 * (80 * row + col) = of_nat (2 * (80 * unat row + unat col))"
    by (subst row, subst col) (simp only: of_nat_add of_nat_mult of_nat_numeral)
  have e1: "2 * (80 * row + col) + 1 = of_nat (2 * (80 * unat row + unat col) + 1)"
    by (simp only: e0 of_nat_add of_nat_1)
  from r c have b0: "2 * (80 * unat row + unat col) < 4000"
    and b1: "2 * (80 * unat row + unat col) + 1 < 4000"
    by arith+
  have "(of_nat (2 * (80 * unat row + unat col)) :: c_int) < 4000"
    using b0 by (rule small_word_less)
  then have a0: "2 * (80 * row + col) < 4000"
    by (simp only: e0)
  have "(of_nat (2 * (80 * unat row + unat col) + 1) :: c_int) < 4000"
    using b1 by (rule small_word_less)
  then have a1: "2 * (80 * row + col) + 1 < 4000"
    by (simp only: e1)
  from a0 a1 show ?thesis ..
qed

lemma nonneg_sint_uint: "0 \<le>s (w :: c_int) \<Longrightarrow> uint w = sint w"
proof -
  assume "0 \<le>s w"
  then have lo: "0 \<le> sint w" by (simp only: word_sle_eq sint_0)
  have hi: "sint w < 2 ^ 32" using sint_lt [of w] by simp
  have "uint w = take_bit 32 (sint w)" using uint_sint [of w] by simp
  also have "\<dots> = sint w" using lo hi by (simp only: take_bit_int_eq_self)
  finally show ?thesis .
qed

lemma in_grid_unat: "in_grid row col \<Longrightarrow> unat row < 25 \<and> unat col < 80"
proof -
  assume g: "in_grid row col"
  then have "uint row = sint row" "uint col = sint col"
    by (simp_all only: in_grid_def nonneg_sint_uint)
  moreover from g have "sint row < 25" "sint col < 80"
    by (simp_all add: in_grid_def word_sless_alt CONSOLE_HEIGHT_def CONSOLE_WIDTH_def)
  ultimately have "uint row < 25" "uint col < 80" by simp_all
  moreover have "unat row = nat (uint row)" "unat col = nat (uint col)"
    by (rule unat_eq_nat_uint)+
  ultimately show ?thesis by arith
qed

text \<open>The two bytes of a cell of the grid lie in the display buffer.\<close>

lemma cell_in_display:
  assumes "in_grid row col"
  shows "in_display (cell_addr row col) \<and> in_display (cell_addr row col + 1)"
proof -
  from in_grid_unat [OF assms] have "unat row < 25" "unat col < 80" by simp_all
  from cell_offset_bound [OF this]
  have b: "2 * (80 * row + col) < 4000" "2 * (80 * row + col) + 1 < 4000" by simp_all
  have sz: "2 * CONSOLE_WIDTH * CONSOLE_HEIGHT = 4000"
    by (simp add: CONSOLE_WIDTH_def CONSOLE_HEIGHT_def)
  have o0: "cell_addr row col - CONSOLE_MEM_BASE = 2 * (80 * row + col)"
    by (simp add: cell_addr_def CONSOLE_WIDTH_def)
  have o1: "cell_addr row col + 1 - CONSOLE_MEM_BASE = 2 * (80 * row + col) + 1"
    by (simp add: cell_addr_def CONSOLE_WIDTH_def)
  from b show ?thesis
    by (simp only: in_display_def sz o0 o1)
qed

text \<open>
  The linear position as a number, and what sixteen bits keep of it.
\<close>

lemma word_of_int_sint32: "word_of_int (sint w) = (w :: c_int)"
  by simp

lemma linear_pos_int:
  "linear_pos s = word_of_int (sint (cursor_row s) * 80 + sint (cursor_col s))"
proof -
  have "word_of_int (sint (cursor_row s) * 80 + sint (cursor_col s)) =
      (word_of_int (sint (cursor_row s)) * 80 + word_of_int (sint (cursor_col s)) :: c_int)"
    by (simp only: of_int_add of_int_mult of_int_numeral)
  also have "\<dots> = cursor_row s * 80 + cursor_col s"
    by (simp only: word_of_int_sint32)
  finally show ?thesis
    by (simp only: linear_pos_def CONSOLE_WIDTH_def)
qed

lemma uint_ucast_linear_pos:
  "uint (ucast (linear_pos s) :: 16 word) =
     (sint (cursor_row s) * 80 + sint (cursor_col s)) mod 65536"
proof -
  define k where "k = sint (cursor_row s) * 80 + sint (cursor_col s)"
  have lp: "linear_pos s = word_of_int k"
    unfolding k_def by (rule linear_pos_int)
  have "uint (ucast (linear_pos s) :: 16 word) = take_bit 16 (uint (linear_pos s))"
    using unsigned_ucast_eq [of "linear_pos s", where ?'a = int and ?'c = 16] by simp
  also have "\<dots> = take_bit 16 (take_bit 32 k)"
    by (simp only: lp uint_word_of_int_eq) simp
  also have "\<dots> = take_bit 16 k"
    by simp
  also have "\<dots> = k mod 65536"
    by (simp add: take_bit_eq_mod)
  finally show ?thesis
    by (simp only: k_def)
qed

text \<open>Newlines only count the row up; nothing brings it back.\<close>

lemma putbyte_rep_newlines:
  "cursor_row (putbyte_rep n 10 s) = cursor_row s + of_nat n"
proof (induction n arbitrary: s)
  case 0
  show ?case by simp
next
  case (Suc n)
  have "cursor_row (snd (putbyte 10 s)) = cursor_row s + 1"
    by (simp add: putbyte_def Let_def)
  with Suc show ?case by simp
qed

lemma putbyte_rep_newlines_col:
  "0 < n \<Longrightarrow> cursor_col (putbyte_rep n 10 s) = 0"
proof (induction n arbitrary: s)
  case 0
  then show ?case by simp
next
  case (Suc n)
  have c: "cursor_col (snd (putbyte 10 s)) = 0"
    by (simp add: putbyte_def Let_def)
  show ?case
  proof (cases n)
    case 0
    with c show ?thesis by simp
  next
    case (Suc m)
    with Suc.IH [of "snd (putbyte 10 s)"] show ?thesis by simp
  qed
qed

text \<open>
  One \<^verbatim>\<open>putbyte\<close> call changes memory at most in the two bytes of one cell: the cell of
  the new cursor position for a backspace, the cell of the old one for any other byte.
\<close>

lemma putbyte_mem_changes:
  "mem (snd (putbyte ch s)) a \<noteq> mem s a \<Longrightarrow>
     (if ch = 8
      then a = cell_addr (cursor_row (snd (putbyte ch s))) (cursor_col (snd (putbyte ch s))) \<or>
           a = cell_addr (cursor_row (snd (putbyte ch s))) (cursor_col (snd (putbyte ch s))) + 1
      else a = cell_addr (cursor_row s) (cursor_col s) \<or>
           a = cell_addr (cursor_row s) (cursor_col s) + 1)"
  by (simp add: putbyte_def Let_def split: if_splits)

text \<open>An accepted colour: black background, light grey foreground.\<close>

lemma set_term_color_accepts_black_background:
  "fst (set_term_color 0x07 s) = 0 \<and> get_term_color (snd (set_term_color 0x07 s)) = 0x07"
  by (simp add: set_term_color_def get_term_color_def word_sless_alt)

text \<open>
  A length of 0 on the initial console with the byte 0x41 at address 0x1000: the byte
  appears in the first cell and the cursor has moved.
\<close>

lemma putbytes_len0_effect:
  "get_cursor (putbytes 0x1000 0 (init_console\<lparr>mem := (\<lambda>_. 0)(0x1000 := 0x41)\<rparr>)) = (0, 1) \<and>
   mem (putbytes 0x1000 0 (init_console\<lparr>mem := (\<lambda>_. 0)(0x1000 := 0x41)\<rparr>)) CONSOLE_MEM_BASE = 0x41"
  by (simp add: putbytes_count word_sless_alt putbyte_def Let_def init_console_def get_cursor_def
      cell_addr_def CONSOLE_WIDTH_def CONSOLE_MEM_BASE_def)

text \<open>
  \<^verbatim>\<open>hide_cursor\<close> keeps the logical position and leaves the sentinel 2500 in the
  register; \<^verbatim>\<open>show_cursor\<close> after it sends the two low bytes of the linear position.
  With the cursor inside the grid the register then holds the number row * 80 + col.
\<close>

lemma hide_then_show_on_grid:
  assumes "in_grid (cursor_row s) (cursor_col s)"
  shows "get_cursor (hide_cursor s) = get_cursor s \<and>
         hw_cursor (hide_cursor s) = 2500 \<and>
         \<not> hw_cursor (hide_cursor s) < 80 * 25 \<and>
         uint (hw_cursor (show_cursor (hide_cursor s))) =
           sint (cursor_row s) * 80 + sint (cursor_col s)"
proof -
  from assms have "0 \<le> sint (cursor_row s)" "sint (cursor_row s) < 25"
    "0 \<le> sint (cursor_col s)" "sint (cursor_col s) < 80"
    by (simp_all add: in_grid_def word_sle_eq word_sless_alt CONSOLE_HEIGHT_def CONSOLE_WIDTH_def)
  then have "0 \<le> sint (cursor_row s) * 80 + sint (cursor_col s)"
    and "sint (cursor_row s) * 80 + sint (cursor_col s) < 65536"
    by arith+
  then have "(sint (cursor_row s) * 80 + sint (cursor_col s)) mod 65536 =
      sint (cursor_row s) * 80 + sint (cursor_col s)"
    by simp
  moreover have "uint (hw_cursor (show_cursor (hide_cursor s))) =
     (sint (cursor_row s) * 80 + sint (cursor_col s)) mod 65536"
    by (simp only: hw_cursor_show hide_cursor_pos uint_ucast_linear_pos)
  ultimately have "uint (hw_cursor (show_cursor (hide_cursor s))) =
      sint (cursor_row s) * 80 + sint (cursor_col s)"
    by (simp only:)
  then show ?thesis
    by (simp add: hw_cursor_hide hide_cursor_pos get_cursor_def CONSOLE_OUT_OF_RANGE_def)
qed

text \<open>
  With the addressed position inside the grid, the bytes one \<^verbatim>\<open>putbyte\<close> call changes
  are bytes of the display buffer.
\<close>

lemma putbyte_on_grid_changes_display:
  assumes g: "if ch = 8
              then in_grid (cursor_row (snd (putbyte ch s))) (cursor_col (snd (putbyte ch s)))
              else in_grid (cursor_row s) (cursor_col s)"
    and ch: "mem (snd (putbyte ch s)) a \<noteq> mem s a"
  shows "in_display a"
proof (cases "ch = 8")
  case True
  with g have "in_grid (cursor_row (snd (putbyte ch s))) (cursor_col (snd (putbyte ch s)))"
    by simp
  from cell_in_display [OF this] putbyte_mem_changes [OF ch] True show ?thesis
    by auto
next
  case False
  with g have "in_grid (cursor_row s) (cursor_col s)"
    by simp
  from cell_in_display [OF this] putbyte_mem_changes [OF ch] False show ?thesis
    by auto
qed

section \<open>The properties\<close>

text \<open>
  C8.  For every (row, col) inside the grid, \<^verbatim>\<open>set_cursor\<close> returns 0 and
  \<^verbatim>\<open>get_cursor\<close> then gives exactly (row, col); for every (row, col) outside the grid,
  \<^verbatim>\<open>set_cursor\<close> returns the error code -1 and the state, with the stored cursor
  position, is what it was.
\<close>

theorem set_cursor_get_cursor:
  "(in_grid row col \<longrightarrow>
      fst (set_cursor row col s) = 0 \<and> get_cursor (snd (set_cursor row col s)) = (row, col)) \<and>
   (\<not> in_grid row col \<longrightarrow>
      fst (set_cursor row col s) = - 1 \<and> snd (set_cursor row col s) = s)"
  by (simp add: in_grid_iff set_cursor_def get_cursor_def)

theorem set_cursor_get_cursor_witness:
  "in_grid 3 5 \<and> fst (set_cursor 3 5 init_console) = 0 \<and>
   get_cursor (snd (set_cursor 3 5 init_console)) = (3, 5) \<and>
   \<not> in_grid 25 0 \<and> fst (set_cursor 25 0 init_console) = - 1 \<and>
   snd (set_cursor 25 0 init_console) = init_console"
proof -
  have a: "in_grid 3 5"
    by (simp add: in_grid_def CONSOLE_HEIGHT_def CONSOLE_WIDTH_def word_sle_eq)
  have b: "\<not> in_grid 25 0"
    by (simp add: in_grid_def CONSOLE_HEIGHT_def CONSOLE_WIDTH_def)
  show ?thesis
    using a b set_cursor_get_cursor [of 3 5 init_console]
      set_cursor_get_cursor [of 25 0 init_console]
    by simp
qed

text \<open>
  C1.  \<^verbatim>\<open>putbytes\<close> with a non-null \<^verbatim>\<open>s\<close> and \<^verbatim>\<open>len = 0\<close> is not a no-op: it
  makes one \<^verbatim>\<open>putbyte\<close> call, on the byte at \<^verbatim>\<open>s\<close>.  With \<^verbatim>\<open>len = 1\<close> it makes two
  calls, on the bytes at \<^verbatim>\<open>s\<close> and at \<^verbatim>\<open>s + 1\<close>, the second one past the length.
  The loop test is \<^verbatim>\<open>len >= 0\<close>, so a length \<^verbatim>\<open>n\<close> that is not negative gives
  \<^verbatim>\<open>n + 1\<close> calls (\<open>putbytes_count\<close>), where the comment above the function promises
  no effect for a length that is not positive.
\<close>

theorem putbytes_extra_call:
  "putbytes 0x1000 0 st = snd (putbyte (mem st 0x1000) st) \<and>
   putbytes 0x1000 1 st =
     snd (putbyte (mem (snd (putbyte (mem st 0x1000) st)) 0x1001)
            (snd (putbyte (mem st 0x1000) st)))"
  by (simp add: putbytes_count word_sless_alt)

text \<open>
  C2.  From column 0 of any row, 80 calls of \<^verbatim>\<open>putbyte\<close> with the ordinary byte
  0x41 leave the cursor in the same row at column 80, not at column 0 of the next row:
  the wrap test is \<^verbatim>\<open>cursor_col > CONSOLE_WIDTH\<close>, one past the boundary.
\<close>

theorem eighty_chars_no_wrap:
  "get_cursor (putbyte_rep 80 0x41 (s\<lparr>cursor_col := 0\<rparr>)) = (cursor_row s, 80)"
  using putbyte_rep_row [where ch = 65 and s = "s\<lparr>cursor_col := 0\<rparr>" and k = 0 and n = 80]
  by (simp add: get_cursor_def)

text \<open>
  C3.  A newline with the cursor on the last row, row 24, moves the cursor to row 25,
  which is not below \<^verbatim>\<open>CONSOLE_HEIGHT\<close>, and leaves the whole memory as it was: no
  row is shifted, no row is cleared, and the cursor row is not brought back to 24.
\<close>

theorem newline_on_last_row_no_scroll:
  "get_cursor (snd (putbyte 10 (s\<lparr>cursor_row := 24\<rparr>))) = (25, 0) \<and>
   \<not> cursor_row (snd (putbyte 10 (s\<lparr>cursor_row := 24\<rparr>))) <s CONSOLE_HEIGHT \<and>
   mem (snd (putbyte 10 (s\<lparr>cursor_row := 24\<rparr>))) = mem s"
  by (simp add: putbyte_def Let_def get_cursor_def CONSOLE_HEIGHT_def)

text \<open>
  C4.  The colour codes 0x10 (foreground 0, background 1), 0x17 (foreground 7,
  background 1) and 0x70 (foreground 0, background 7) are rejected with -1 and the state
  is unchanged: \<^verbatim>\<open>background\<close> is \<^verbatim>\<open>color & 0xF0\<close>, not shifted down, so any
  background other than 0 compares greater than 7.
\<close>

theorem set_term_color_rejects_valid_background:
  "set_term_color 0x10 s = (- 1, s) \<and>
   set_term_color 0x17 s = (- 1, s) \<and>
   set_term_color 0x70 s = (- 1, s)"
  by (simp add: set_term_color_def)

text \<open>
  C5.  \<^verbatim>\<open>draw_char\<close> at row 25, column 0, which is outside the grid, is not rejected:
  it stores the character and the colour at offsets 4000 and 4001 from the base, the
  first two bytes after the display buffer.  \<^verbatim>\<open>get_char\<close> at the same coordinates
  reads the byte at offset 4000.
\<close>

theorem draw_char_out_of_grid_writes:
  "\<not> in_grid 25 0 \<and>
   mem (draw_char 25 0 0x41 0x07 s) (CONSOLE_MEM_BASE + 4000) = 0x41 \<and>
   mem (draw_char 25 0 0x41 0x07 s) (CONSOLE_MEM_BASE + 4001) = 0x07 \<and>
   \<not> in_display (CONSOLE_MEM_BASE + 4000) \<and>
   get_char 25 0 s = mem s (CONSOLE_MEM_BASE + 4000)"
  by (simp add: draw_char_def get_char_def cell_addr_def CONSOLE_WIDTH_def in_grid_def
      in_display_def CONSOLE_HEIGHT_def)

text \<open>
  C6.  On the initial console made visible by \<^verbatim>\<open>show_cursor\<close>, the call
  \<^verbatim>\<open>set_cursor(1, 1)\<close> succeeds and stores the position, and the hardware cursor
  register still holds 0, not the new linear position 81: \<^verbatim>\<open>set_cursor\<close> has no
  \<^verbatim>\<open>outb\<close> and never reads \<^verbatim>\<open>is_cursor_visible\<close>.  Only a further \<^verbatim>\<open>show_cursor\<close>,
  on the cursor that is already shown, brings the register to 81.
\<close>

theorem set_cursor_visible_register_stale:
  "is_cursor_visible (show_cursor init_console) = 1 \<and> in_grid 1 1 \<and>
   fst (set_cursor 1 1 (show_cursor init_console)) = 0 \<and>
   get_cursor (snd (set_cursor 1 1 (show_cursor init_console))) = (1, 1) \<and>
   hw_cursor (snd (set_cursor 1 1 (show_cursor init_console))) = 0 \<and>
   hw_cursor (snd (set_cursor 1 1 (show_cursor init_console)))
     \<noteq> ucast (1 * CONSOLE_WIDTH + 1 :: c_int) \<and>
   hw_cursor (show_cursor (snd (set_cursor 1 1 (show_cursor init_console)))) = 81"
proof -
  have g: "in_grid 1 1"
    by (simp add: in_grid_def CONSOLE_HEIGHT_def CONSOLE_WIDTH_def word_sle_eq word_sless_alt)
  have v: "is_cursor_visible (show_cursor init_console) = 1"
    by (simp add: show_cursor_def Let_def outb_frame)
  have ok: "set_cursor 1 1 (show_cursor init_console) =
      (0, (show_cursor init_console)\<lparr>cursor_row := 1, cursor_col := 1\<rparr>)"
    using g by (simp add: in_grid_iff set_cursor_def)
  have "linear_pos init_console = 0"
    by (simp add: linear_pos_def init_console_def)
  then have h: "hw_cursor (show_cursor init_console) = 0"
    by (simp add: hw_cursor_show)
  have h': "hw_cursor ((show_cursor init_console)\<lparr>cursor_row := 1, cursor_col := 1\<rparr>) =
      hw_cursor (show_cursor init_console)"
    by (simp add: hw_cursor_def)
  have n: "(ucast (1 * CONSOLE_WIDTH + 1 :: c_int) :: 16 word) = 81"
    by (simp add: CONSOLE_WIDTH_def)
  have h'': "hw_cursor (show_cursor ((show_cursor init_console)\<lparr>cursor_row := 1, cursor_col := 1\<rparr>))
      = 81"
    by (simp add: hw_cursor_show linear_pos_def CONSOLE_WIDTH_def)
  from g v ok h h' n h'' show ?thesis
    by (simp add: get_cursor_def)
qed

text \<open>
  C7.  A backspace with the cursor at the origin (0, 0) is not clamped: the cursor goes
  to row -1, column 79, a negative row, and the space and the colour are stored two
  bytes and one byte below the base of the display buffer, outside of it.  (For a row
  other than 0 the code does what the claim says, see \<open>putbyte_backspace_col0\<close>.)
\<close>

theorem backspace_at_origin:
  "get_cursor (snd (putbyte 8 (s\<lparr>cursor_row := 0, cursor_col := 0\<rparr>))) = (- 1, 79) \<and>
   cursor_row (snd (putbyte 8 (s\<lparr>cursor_row := 0, cursor_col := 0\<rparr>))) <s 0 \<and>
   mem (snd (putbyte 8 (s\<lparr>cursor_row := 0, cursor_col := 0\<rparr>))) (CONSOLE_MEM_BASE - 2) = 0x20 \<and>
   mem (snd (putbyte 8 (s\<lparr>cursor_row := 0, cursor_col := 0\<rparr>))) (CONSOLE_MEM_BASE - 1)
     = current_color s \<and>
   \<not> in_display (CONSOLE_MEM_BASE - 2) \<and> \<not> in_display (CONSOLE_MEM_BASE - 1)"
  by (simp add: putbyte_backspace_col0 get_cursor_def cell_addr_def CONSOLE_WIDTH_def
      in_display_def CONSOLE_HEIGHT_def)

text \<open>
  C9.  After 820 newlines on the initial console the logical cursor is at (820, 0),
  linear position 65600: nothing in \<^verbatim>\<open>putbyte\<close> scrolls or bounds the row.
  \<^verbatim>\<open>hide_cursor\<close> then \<^verbatim>\<open>show_cursor\<close> from there leaves 64 in the hardware cursor
  register, not the linear position.  (For a cursor inside the grid the register does get
  the linear position, see \<open>hide_then_show_on_grid\<close>.)
\<close>

theorem hide_then_show_after_820_newlines:
  "get_cursor (putbyte_rep 820 10 init_console) = (820, 0) \<and>
   get_cursor (hide_cursor (putbyte_rep 820 10 init_console)) = (820, 0) \<and>
   sint (linear_pos (putbyte_rep 820 10 init_console)) = 65600 \<and>
   uint (hw_cursor (show_cursor (hide_cursor (putbyte_rep 820 10 init_console)))) = 64 \<and>
   uint (hw_cursor (show_cursor (hide_cursor (putbyte_rep 820 10 init_console))))
     \<noteq> sint (linear_pos (putbyte_rep 820 10 init_console))"
proof -
  have r: "cursor_row (putbyte_rep 820 10 init_console) = 820"
    using putbyte_rep_newlines [of 820 init_console] by (simp add: init_console_def)
  have c: "cursor_col (putbyte_rep 820 10 init_console) = 0"
    using putbyte_rep_newlines_col [of 820 init_console] by simp
  have l: "linear_pos (putbyte_rep 820 10 init_console) = 65600"
    by (simp add: linear_pos_def r c CONSOLE_WIDTH_def)
  have h: "hw_cursor (show_cursor (hide_cursor (putbyte_rep 820 10 init_console))) = 64"
    by (simp add: hw_cursor_show hide_cursor_pos l)
  from r c l h show ?thesis
    by (simp add: get_cursor_def hide_cursor_pos)
qed

text \<open>
  C10.  \<^verbatim>\<open>set_cursor(24, 0)\<close> on the initial console, then a newline, then the byte
  0x41: the newline leaves the cursor at (25, 0), below the grid, and the byte and the
  colour are then stored at offsets 4000 and 4001 from the base, the first two bytes
  after the display buffer.  So a \<^verbatim>\<open>putbyte\<close> call changes bytes that are not display
  cells.  (With the addressed position inside the grid the changed bytes are display
  cells, see \<open>putbyte_on_grid_changes_display\<close>.)
\<close>

theorem putbyte_below_grid_changes_outside_display:
  "fst (set_cursor 24 0 init_console) = 0 \<and>
   get_cursor (snd (putbyte 10 (snd (set_cursor 24 0 init_console)))) = (25, 0) \<and>
   \<not> in_grid 25 0 \<and>
   mem (snd (putbyte 10 (snd (set_cursor 24 0 init_console)))) (CONSOLE_MEM_BASE + 4000) = 0 \<and>
   mem (snd (putbyte 65 (snd (putbyte 10 (snd (set_cursor 24 0 init_console))))))
     (CONSOLE_MEM_BASE + 4000) = 65 \<and>
   \<not> in_display (CONSOLE_MEM_BASE + 4000) \<and> \<not> in_display (CONSOLE_MEM_BASE + 4001)"
proof -
  have g: "in_grid 24 0"
    by (simp add: in_grid_def CONSOLE_HEIGHT_def CONSOLE_WIDTH_def word_sle_eq word_sless_alt)
  have s1: "set_cursor 24 0 init_console = (0, init_console\<lparr>cursor_row := 24, cursor_col := 0\<rparr>)"
    using g by (simp add: in_grid_iff set_cursor_def)
  have s2: "snd (putbyte 10 (init_console\<lparr>cursor_row := 24, cursor_col := 0\<rparr>)) =
      init_console\<lparr>cursor_row := 25, cursor_col := 0\<rparr>"
    by (simp add: putbyte_def Let_def)
  have m2: "mem (init_console\<lparr>cursor_row := 25, cursor_col := 0\<rparr>) (CONSOLE_MEM_BASE + 4000) = 0"
    by (simp add: init_console_def)
  have s3: "mem (snd (putbyte 65 (init_console\<lparr>cursor_row := 25, cursor_col := 0\<rparr>)))
      (CONSOLE_MEM_BASE + 4000) = 65"
    by (simp add: putbyte_def Let_def cell_addr_def CONSOLE_WIDTH_def)
  have ng: "\<not> in_grid 25 0"
    by (simp add: in_grid_def CONSOLE_HEIGHT_def)
  have nd: "\<not> in_display (CONSOLE_MEM_BASE + 4000)" "\<not> in_display (CONSOLE_MEM_BASE + 4001)"
    by (simp_all add: in_display_def CONSOLE_WIDTH_def CONSOLE_HEIGHT_def)
  from s1 s2 m2 s3 ng nd show ?thesis
    by (simp add: get_cursor_def)
qed

end
